theory Spec2Isabelle
  imports Main "HOL-Library.Word"
begin

section \<open>Python values, exceptions and awaited computations\<close>

text \<open>
  The composer of \<^verbatim>\<open>nitric/context.py\<close> is generic in the context type \<^verbatim>\<open>C\<close> and
  dynamically typed: a handler may return a context or \<^verbatim>\<open>None\<close>, and the chain tests the
  truth value of what a middleware returned. Values are therefore a small universe of
  Python objects; \<open>PyObj\<close> holds an instance of a class that defines neither
  \<^verbatim>\<open>__bool__\<close> nor \<^verbatim>\<open>__len__\<close> (every context class of the module), which is always true.
\<close>

datatype 'c pyval =
    PyNone
  | PyBool bool
  | PyInt int
  | PyStr string
  | PyBytes "8 word list"
  | PyObj 'c

fun truthy :: "'c pyval \<Rightarrow> bool" where
  "truthy PyNone = False"
| "truthy (PyBool b) = b"
| "truthy (PyInt i) = (i \<noteq> 0)"
| "truthy (PyStr s) = (s \<noteq> [])"
| "truthy (PyBytes b) = (b \<noteq> [])"
| "truthy (PyObj c) = True"

datatype pyexn = TypeError | Raised string

text \<open>
  An awaited coroutine runs to completion before its caller goes on, so \<^verbatim>\<open>await f(x)\<close> is
  a state transformer: from the state of the world (whatever the user's functions read and
  write: logs, the fields of mutable objects) to an outcome, a raised exception (\<open>Inl\<close>) or
  a returned value (\<open>Inr\<close>), and the state left behind.
\<close>

type_synonym ('c, 's) outcome = "(pyexn + 'c pyval) \<times> 's"
type_synonym ('c, 's) awaitable = "'s \<Rightarrow> ('c, 's) outcome"

definition returns :: "'c pyval \<Rightarrow> ('c, 's) awaitable" where
  "returns v = (\<lambda>s. (Inr v, s))"

definition raises :: "pyexn \<Rightarrow> ('c, 's) awaitable" where
  "raises e = (\<lambda>s. (Inl e, s))"

definition await :: "('c, 's) awaitable \<Rightarrow> ('c pyval \<Rightarrow> ('c, 's) awaitable) \<Rightarrow> ('c, 's) awaitable" where
  "await m f = (\<lambda>s. case m s of (Inl e, s') \<Rightarrow> (Inl e, s') | (Inr v, s') \<Rightarrow> f v s')"

text \<open>
  A next, as its holder uses it: its truth value (\<^verbatim>\<open>if nxt\<close>: a function is true, an object
  that defines \<^verbatim>\<open>__bool__\<close> or \<^verbatim>\<open>__len__\<close> need not be) and what \<^verbatim>\<open>await nxt(ctx)\<close> does, a
  call with one positional argument. \<open>None\<close> is Python's \<^verbatim>\<open>None\<close>: it is false, and calling
  it raises \<^verbatim>\<open>TypeError\<close>.
\<close>

datatype ('c, 's) continuation =
  Continuation (is_true: bool) (resume: "'c pyval \<Rightarrow> 's \<Rightarrow> (pyexn + 'c pyval) \<times> 's")

definition call_next :: "('c, 's) continuation option \<Rightarrow> 'c pyval \<Rightarrow> ('c, 's) awaitable" where
  "call_next nxt ctx = (case nxt of None \<Rightarrow> raises TypeError | Some k \<Rightarrow> resume k ctx)"

definition next_truthy :: "('c, 's) continuation option \<Rightarrow> bool" where
  "next_truthy nxt = (case nxt of None \<Rightarrow> False | Some k \<Rightarrow> is_true k)"

section \<open>Callables and their signatures\<close>

text \<open>
  What \<^verbatim>\<open>inspect.signature\<close> shows of a callable: its parameters in order, each with its
  kind and whether it has a default (\<^verbatim>\<open>param.default != inspect.Parameter.empty\<close>).
\<close>

datatype kind = POSITIONAL_ONLY | POSITIONAL_OR_KEYWORD | VAR_POSITIONAL | KEYWORD_ONLY | VAR_KEYWORD

record param =
  pname :: string
  pkind :: kind
  has_default :: bool

text \<open>
  A callable is its signature and its behaviour. \<open>code f x n\<close> is what awaiting the call
  does once the arguments are bound, with \<open>x\<close> the first positional argument and \<open>n\<close> the
  second, a next or \<^verbatim>\<open>None\<close> (also when no second argument is passed and the
  parameter takes its default \<^verbatim>\<open>None\<close>, as in the \<^verbatim>\<open>Middleware\<close> protocol; a function of one
  parameter does not look at it).
\<close>

record ('c, 's) callable =
  parameters :: "param list"
  code :: "'c pyval \<Rightarrow> ('c, 's) continuation option \<Rightarrow> ('c, 's) awaitable"

definition is_positional :: "param \<Rightarrow> bool" where
  "is_positional p = (pkind p = POSITIONAL_ONLY \<or> pkind p = POSITIONAL_OR_KEYWORD)"

text \<open>
  Python's binding of a call with \<open>n\<close> positional arguments and no keyword argument: the
  arguments fit the positional parameters (or there is a \<^verbatim>\<open>*args\<close>), every positional
  parameter left without an argument has a default, and so has every keyword-only one.
  A call that does not bind raises \<^verbatim>\<open>TypeError\<close> before the function runs.
\<close>

definition binds :: "param list \<Rightarrow> nat \<Rightarrow> bool" where
  "binds ps n =
     ((n \<le> length (filter is_positional ps) \<or> list_ex (\<lambda>p. pkind p = VAR_POSITIONAL) ps)
      \<and> list_all has_default (drop n (filter is_positional ps))
      \<and> list_all has_default (filter (\<lambda>p. pkind p = KEYWORD_ONLY) ps))"

definition call1 :: "('c, 's) callable \<Rightarrow> 'c pyval \<Rightarrow> ('c, 's) awaitable" where
  "call1 f x = (if binds (parameters f) 1 then code f x None else raises TypeError)"

definition call2 ::
  "('c, 's) callable \<Rightarrow> 'c pyval \<Rightarrow> ('c, 's) continuation option \<Rightarrow> ('c, 's) awaitable" where
  "call2 f x n = (if binds (parameters f) 2 then code f x n else raises TypeError)"

section \<open>The handler adapter\<close>

text \<open>
  \<^verbatim>\<open>_is_handler\<close>: the names of the parameters whose default is empty, of whatever kind,
  are collected, and the callable is a handler when there is exactly one.
\<close>

definition is_handler :: "('c, 's) callable \<Rightarrow> bool" where
  "is_handler unknown =
     (let positional = map pname (filter (\<lambda>p. \<not> has_default p) (parameters unknown))
      in length positional = 1)"

text \<open>The signature of the inner \<^verbatim>\<open>middleware(ctx, nxt)\<close> of \<^verbatim>\<open>_convert_to_middleware\<close>.\<close>

definition middleware_parameters :: "param list" where
  "middleware_parameters =
     [\<lparr>pname = ''ctx'', pkind = POSITIONAL_OR_KEYWORD, has_default = False\<rparr>,
      \<lparr>pname = ''nxt'', pkind = POSITIONAL_OR_KEYWORD, has_default = False\<rparr>]"

definition convert_to_middleware :: "('c, 's) callable \<Rightarrow> ('c, 's) callable" where
  "convert_to_middleware handler =
     (if \<not> is_handler handler then handler
      else \<lparr>parameters = middleware_parameters,
            code = (\<lambda>ctx nxt.
              await (call1 handler ctx) (\<lambda>context.
                if next_truthy nxt then call_next nxt context else returns context))\<rparr>)"

section \<open>The composer\<close>

text \<open>
  \<^verbatim>\<open>chained_middleware\<close>, the closure that \<^verbatim>\<open>reduce_chain(acc_next, cur)\<close> returns. Its own
  \<^verbatim>\<open>nxt\<close> parameter defaults to \<^verbatim>\<open>None\<close> and is tested with \<^verbatim>\<open>is not None\<close>, where the adapter
  tests the truth value of its \<^verbatim>\<open>nxt\<close>.
\<close>

definition chained_middleware ::
  "('c, 's) continuation option \<Rightarrow> ('c, 's) callable \<Rightarrow>
   'c pyval \<Rightarrow> ('c, 's) continuation option \<Rightarrow> ('c, 's) awaitable" where
  "chained_middleware acc_next cur ctx nxt =
     await (case nxt of Some k \<Rightarrow> resume k ctx | None \<Rightarrow> returns ctx) (\<lambda>result.
       await (call2 cur result acc_next) (\<lambda>output_context.
         if \<not> truthy output_context then returns result
         else returns output_context))"

text \<open>
  The chain is handed on as a continuation: \<^verbatim>\<open>composed\<close> calls it as
  \<^verbatim>\<open>middleware_chain(ctx)\<close>, the adapter and a middleware call it as \<^verbatim>\<open>nxt(ctx)\<close>, so the
  closure always runs with its \<^verbatim>\<open>nxt\<close> left at \<^verbatim>\<open>None\<close>. The closure is a function, which
  is true.
\<close>

definition reduce_chain ::
  "('c, 's) continuation option \<Rightarrow> ('c, 's) callable \<Rightarrow> ('c, 's) continuation option" where
  "reduce_chain acc_next cur =
     Some (Continuation True (\<lambda>ctx. chained_middleware acc_next cur ctx None))"

definition composed ::
  "('c, 's) callable list \<Rightarrow> 'c pyval \<Rightarrow> ('c, 's) continuation option \<Rightarrow> ('c, 's) awaitable" where
  "composed middlewares ctx nxt =
     (let last_middleware = nxt;
          middleware_chain = foldl reduce_chain last_middleware (rev middlewares)
      in call_next middleware_chain ctx)"

definition compose_middleware ::
  "('c, 's) callable list \<Rightarrow> 'c pyval \<Rightarrow> ('c, 's) continuation option \<Rightarrow> ('c, 's) awaitable" where
  "compose_middleware middlewares =
     composed (map convert_to_middleware middlewares)"

section \<open>The HTTP response\<close>

text \<open>
  \<^verbatim>\<open>Record = Dict[str, Union[str, List[str]]]\<close>, the type of the headers.
\<close>

datatype header_value = HStr string | HList "string list"

text \<open>
  \<open>body r\<close> is what the property \<^verbatim>\<open>r.body\<close> reads, the attribute \<^verbatim>\<open>_body\<close>. It is a Python
  value: nothing in the language keeps it a \<^verbatim>\<open>bytes\<close>.
\<close>

record 'c HttpResponse =
  status :: int
  headers :: "string \<rightharpoonup> header_value"
  body :: "'c pyval"

text \<open>
  \<^verbatim>\<open>__init__(status=200, headers=None, body=None)\<close>. The annotation \<^verbatim>\<open>body: Optional[bytes]\<close>
  is not checked: whatever true value is passed is stored as it is, and a false one
  (\<^verbatim>\<open>None\<close>, the empty bytes) is replaced by \<^verbatim>\<open>bytes()\<close>. An empty dictionary of headers is
  false and is replaced by a new empty dictionary, which is the same map.
\<close>

definition HttpResponse_init ::
  "int \<Rightarrow> (string \<rightharpoonup> header_value) option \<Rightarrow> 'c pyval \<Rightarrow> 'c HttpResponse" where
  "HttpResponse_init status0 headers0 body0 =
     \<lparr>status = status0,
      headers = (case headers0 of Some h \<Rightarrow> h | None \<Rightarrow> Map.empty),
      body = (if truthy body0 then body0 else PyBytes [])\<rparr>"

text \<open>
  The setter of \<^verbatim>\<open>body\<close>. \<^verbatim>\<open>json.dumps\<close> and \<^verbatim>\<open>str.encode("utf-8")\<close> belong to Python's
  library and are parameters; both can raise (a value that JSON cannot serialise, a text
  with a lone surrogate), and an assignment that raises leaves the response as it was.
  The result is the outcome of the assignment and the response after it.
\<close>

definition body_setter ::
  "('c pyval \<Rightarrow> pyexn + string) \<Rightarrow> (string \<Rightarrow> pyexn + 8 word list) \<Rightarrow>
   'c HttpResponse \<Rightarrow> 'c pyval \<Rightarrow> (pyexn + unit) \<times> 'c HttpResponse" where
  "body_setter dumps encode self value =
     (case value of
        PyStr t \<Rightarrow>
          (case encode t of
             Inl e \<Rightarrow> (Inl e, self)
           | Inr b \<Rightarrow> (Inr (), self\<lparr>body := PyBytes b\<rparr>))
      | PyBytes b \<Rightarrow> (Inr (), self\<lparr>body := value\<rparr>)
      | _ \<Rightarrow>
          (case dumps value of
             Inl e \<Rightarrow> (Inl e, self)
           | Inr js \<Rightarrow>
               (case encode js of
                  Inl e \<Rightarrow> (Inl e, self)
                | Inr b \<Rightarrow>
                    (Inr (), self\<lparr>body := PyBytes b,
                                  headers := (headers self)(''Content-Type'' \<mapsto>
                                               HList [''application/json''])\<rparr>))))"

fun is_str :: "'c pyval \<Rightarrow> bool" where
  "is_str (PyStr t) = True"
| "is_str v = False"

fun is_bytes :: "'c pyval \<Rightarrow> bool" where
  "is_bytes (PyBytes b) = True"
| "is_bytes v = False"

text \<open>
  The two library functions, on the values and texts of this model, to run the setter on.
  A text here is a list of characters with code points below 256; UTF-8 writes a code
  point below 128 as one byte and the others as two, and does not raise on such a text.
\<close>

definition utf8_char :: "char \<Rightarrow> 8 word list" where
  "utf8_char c =
     (let n = (of_char c :: nat)
      in if n < 128 then [of_nat n] else [of_nat (192 + n div 64), of_nat (128 + n mod 64)])"

definition encode_utf8 :: "string \<Rightarrow> pyexn + 8 word list" where
  "encode_utf8 t = Inr (concat (map utf8_char t))"

text \<open>
  \<^verbatim>\<open>json.dumps\<close> with its default \<^verbatim>\<open>ensure_ascii=True\<close>: \<^verbatim>\<open>null\<close>, \<^verbatim>\<open>true\<close>, \<^verbatim>\<open>false\<close>, an integer in
  decimal, a text between double quotes with the quote, the backslash and every
  character outside \<^verbatim>\<open>' '..'~'\<close> escaped; \<^verbatim>\<open>bytes\<close> and class instances raise \<^verbatim>\<open>TypeError\<close>.
\<close>

fun decimal :: "nat \<Rightarrow> string" where
  "decimal n = (if n < 10 then [''0123456789'' ! n]
                else decimal (n div 10) @ [''0123456789'' ! (n mod 10)])"

declare decimal.simps [simp del]

definition str_of_int :: "int \<Rightarrow> string" where
  "str_of_int i = (if i < 0 then CHR ''-'' # decimal (nat (- i)) else decimal (nat i))"

definition json_escape_char :: "char \<Rightarrow> string" where
  "json_escape_char c =
     (let n = (of_char c :: nat)
      in if n = 34 then [CHR 0x5C, CHR 0x22]
         else if n = 92 then [CHR 0x5C, CHR 0x5C]
         else if n = 10 then [CHR 0x5C, CHR ''n'']
         else if n = 13 then [CHR 0x5C, CHR ''r'']
         else if n = 9 then [CHR 0x5C, CHR ''t'']
         else if n = 12 then [CHR 0x5C, CHR ''f'']
         else if n = 8 then [CHR 0x5C, CHR ''b'']
         else if 32 \<le> n \<and> n \<le> 126 then [c]
         else [CHR 0x5C, CHR ''u'', CHR ''0'', CHR ''0'',
               ''0123456789abcdef'' ! (n div 16), ''0123456789abcdef'' ! (n mod 16)])"

fun json_dumps :: "'c pyval \<Rightarrow> pyexn + string" where
  "json_dumps PyNone = Inr ''null''"
| "json_dumps (PyBool b) = Inr (if b then ''true'' else ''false'')"
| "json_dumps (PyInt i) = Inr (str_of_int i)"
| "json_dumps (PyStr t) = Inr ([CHR 0x22] @ concat (map json_escape_char t) @ [CHR 0x22])"
| "json_dumps (PyBytes b) = Inl TypeError"
| "json_dumps (PyObj c) = Inl TypeError"

section \<open>Middleware and handlers to run the composer on\<close>

text \<open>
  \<^verbatim>\<open>async def m(ctx, nxt): ...\<close> and \<^verbatim>\<open>async def h(ctx): ...\<close>, from what they do.
\<close>

definition middleware_of ::
  "('c pyval \<Rightarrow> ('c, 's) continuation option \<Rightarrow> ('c, 's) awaitable) \<Rightarrow> ('c, 's) callable" where
  "middleware_of f = \<lparr>parameters = middleware_parameters, code = f\<rparr>"

definition handler_of :: "('c pyval \<Rightarrow> ('c, 's) awaitable) \<Rightarrow> ('c, 's) callable" where
  "handler_of f =
     \<lparr>parameters = [\<lparr>pname = ''ctx'', pkind = POSITIONAL_OR_KEYWORD, has_default = False\<rparr>],
      code = (\<lambda>ctx nxt. f ctx)\<rparr>"

text \<open>
  The usual shape of a middleware: it works on the context, then hands it to its next and
  returns what the next returns, or returns it when there is no next (or a false one).
  \<^verbatim>\<open>
  async def m(ctx, nxt):
      ctx = pre(ctx)
      return await nxt(ctx) if nxt else ctx
  \<close>
\<close>

definition forwarder :: "('c pyval \<Rightarrow> 's \<Rightarrow> 'c pyval \<times> 's) \<Rightarrow> ('c, 's) callable" where
  "forwarder pre =
     middleware_of (\<lambda>ctx nxt s.
       case pre ctx s of (ctx', s') \<Rightarrow>
         (if next_truthy nxt then call_next nxt ctx' s' else (Inr ctx', s')))"

text \<open>The work of a list of such middleware, done in the order of the list.\<close>

fun run_pre :: "('c pyval \<Rightarrow> 's \<Rightarrow> 'c pyval \<times> 's) list \<Rightarrow> 'c pyval \<Rightarrow> 's \<Rightarrow> 'c pyval \<times> 's" where
  "run_pre [] ctx s = (ctx, s)"
| "run_pre (f # fs) ctx s = (case f ctx s of (ctx', s') \<Rightarrow> run_pre fs ctx' s')"

text \<open>A logging middleware: it appends its tag to the shared log, then forwards.\<close>

definition log_mw :: "string \<Rightarrow> ('c, string list) callable" where
  "log_mw tag = forwarder (\<lambda>ctx log. (ctx, log @ [tag]))"

text \<open>
  The counter scenario. The state is a record of who saw which counter on entry.
  \<open>inc\<close> calls its next whatever it is; \<open>inc_guarded\<close> calls it when there is one.
  \<^verbatim>\<open>
  async def inc(ctx, nxt):
      ctx.counter += n
      return await nxt(ctx)
  \<close>
\<close>

record counter_ctx =
  counter :: int

definition inc :: "string \<Rightarrow> int \<Rightarrow> (counter_ctx, (string \<times> int) list) callable" where
  "inc name n =
     middleware_of (\<lambda>ctx nxt s.
       case ctx of
         PyObj c \<Rightarrow> call_next nxt (PyObj (c\<lparr>counter := counter c + n\<rparr>)) (s @ [(name, counter c)])
       | _ \<Rightarrow> (Inl (Raised ''AttributeError''), s))"

definition add_counter ::
  "string \<Rightarrow> int \<Rightarrow> counter_ctx pyval \<Rightarrow> (string \<times> int) list \<Rightarrow>
   counter_ctx pyval \<times> (string \<times> int) list" where
  "add_counter name n ctx s =
     (case ctx of
        PyObj c \<Rightarrow> (PyObj (c\<lparr>counter := counter c + n\<rparr>), s @ [(name, counter c)])
      | _ \<Rightarrow> (ctx, s))"

definition inc_guarded :: "string \<Rightarrow> int \<Rightarrow> (counter_ctx, (string \<times> int) list) callable" where
  "inc_guarded name n = forwarder (add_counter name n)"

text \<open>
  A middleware that works on the context after its next has returned, one that catches
  what its next raises, one that raises after its next has returned, and handlers and
  middleware that return \<^verbatim>\<open>None\<close> or raise at once (\<open>observe_none\<close> first records the
  context it was given).
\<close>

definition post_inc :: "int \<Rightarrow> (counter_ctx, 's) callable" where
  "post_inc n =
     middleware_of (\<lambda>ctx nxt.
       await (call_next nxt ctx) (\<lambda>r.
         case r of PyObj c \<Rightarrow> returns (PyObj (c\<lparr>counter := counter c + n\<rparr>)) | _ \<Rightarrow> returns r))"

definition catching :: "('c, 's) callable" where
  "catching =
     middleware_of (\<lambda>ctx nxt s.
       case call_next nxt ctx s of (Inl e, s') \<Rightarrow> (Inr ctx, s') | (Inr v, s') \<Rightarrow> (Inr v, s'))"

definition raise_after_next :: "pyexn \<Rightarrow> ('c, 's) callable" where
  "raise_after_next e = middleware_of (\<lambda>ctx nxt. await (call_next nxt ctx) (\<lambda>r. raises e))"

definition returning_none :: "('c, 's) callable" where
  "returning_none = middleware_of (\<lambda>ctx nxt. returns PyNone)"

definition observe_none :: "('c, 'c pyval list) callable" where
  "observe_none = middleware_of (\<lambda>ctx nxt seen. (Inr PyNone, seen @ [ctx]))"

definition raising :: "pyexn \<Rightarrow> ('c, 's) callable" where
  "raising e = middleware_of (\<lambda>ctx nxt. raises e)"

definition handler_none :: "('c, 's) callable" where
  "handler_none = handler_of (\<lambda>ctx. returns PyNone)"

definition handler_raising :: "pyexn \<Rightarrow> ('c, 's) callable" where
  "handler_raising e = handler_of (\<lambda>ctx. raises e)"

text \<open>
  Callables of other shapes: \<^verbatim>\<open>async def f(): ...\<close>,
  \<^verbatim>\<open>async def f(ctx, nxt, extra): ...\<close>, a middleware as the \<^verbatim>\<open>Middleware\<close> protocol writes it,
  \<^verbatim>\<open>async def m(ctx, nxt=None): return await nxt(ctx) if nxt else ctx\<close>, one of the same
  signature that returns \<^verbatim>\<open>None\<close> and does not call its next, and a handler that also takes
  keyword arguments, \<^verbatim>\<open>async def h(ctx, **kwargs): return ctx\<close>.
\<close>

definition no_parameters :: "('c, 's) callable" where
  "no_parameters = \<lparr>parameters = [], code = (\<lambda>ctx nxt. returns PyNone)\<rparr>"

definition three_parameters :: "('c, 's) callable" where
  "three_parameters =
     \<lparr>parameters = [\<lparr>pname = ''ctx'', pkind = POSITIONAL_OR_KEYWORD, has_default = False\<rparr>,
                    \<lparr>pname = ''nxt'', pkind = POSITIONAL_OR_KEYWORD, has_default = False\<rparr>,
                    \<lparr>pname = ''extra'', pkind = POSITIONAL_OR_KEYWORD, has_default = False\<rparr>],
      code = (\<lambda>ctx nxt. returns ctx)\<rparr>"

definition identity_default :: "('c, 's) callable" where
  "identity_default =
     \<lparr>parameters = [\<lparr>pname = ''ctx'', pkind = POSITIONAL_OR_KEYWORD, has_default = False\<rparr>,
                    \<lparr>pname = ''nxt'', pkind = POSITIONAL_OR_KEYWORD, has_default = True\<rparr>],
      code = (\<lambda>ctx nxt. if next_truthy nxt then call_next nxt ctx else returns ctx)\<rparr>"

definition protocol_none :: "('c, 's) callable" where
  "protocol_none =
     \<lparr>parameters = [\<lparr>pname = ''ctx'', pkind = POSITIONAL_OR_KEYWORD, has_default = False\<rparr>,
                    \<lparr>pname = ''nxt'', pkind = POSITIONAL_OR_KEYWORD, has_default = True\<rparr>],
      code = (\<lambda>ctx nxt. returns PyNone)\<rparr>"

definition handler_kwargs :: "('c, 's) callable" where
  "handler_kwargs =
     \<lparr>parameters = [\<lparr>pname = ''ctx'', pkind = POSITIONAL_OR_KEYWORD, has_default = False\<rparr>,
                    \<lparr>pname = ''kwargs'', pkind = VAR_KEYWORD, has_default = False\<rparr>],
      code = (\<lambda>ctx nxt. returns ctx)\<rparr>"

text \<open>
  The classification in the words of the specification: exactly one required (no-default)
  positional parameter.
\<close>

definition spec_is_handler :: "('c, 's) callable \<Rightarrow> bool" where
  "spec_is_handler f =
     (length (filter (\<lambda>p. is_positional p \<and> \<not> has_default p) (parameters f)) = 1)"

section \<open>Running the composer\<close>

lemma binds_mw1 [simp]: "binds middleware_parameters 2"
  by (simp add: binds_def middleware_parameters_def is_positional_def)

lemma not_handler_mw [simp]: "\<not> is_handler (middleware_of f)"
  by (simp add: is_handler_def middleware_of_def middleware_parameters_def)

lemma call2_mw [simp]: "call2 (middleware_of f) x n = f x n"
  by (simp add: call2_def middleware_of_def)

lemma convert_not_handler: "\<not> is_handler f \<Longrightarrow> convert_to_middleware f = f"
  by (simp add: convert_to_middleware_def)

lemma call2_convert_handler:
  "is_handler h \<Longrightarrow>
     call2 (convert_to_middleware h) ctx nxt =
       await (call1 h ctx) (\<lambda>context.
         if next_truthy nxt then call_next nxt context else returns context)"
  by (simp add: convert_to_middleware_def call2_def)

lemma composed_Cons:
  "composed (m # ms) ctx nxt = chained_middleware (foldl reduce_chain nxt (rev ms)) m ctx None"
  by (simp add: composed_def reduce_chain_def call_next_def)

lemma chained_None:
  "chained_middleware acc cur ctx None s =
     (case call2 cur ctx acc s of
        (Inl e, t) \<Rightarrow> (Inl e, t)
      | (Inr v, t) \<Rightarrow> (Inr (if truthy v then v else ctx), t))"
  by (simp add: chained_middleware_def await_def returns_def split: prod.splits sum.splits)

lemma compose_Cons:
  "compose_middleware (m # ms) ctx nxt =
     chained_middleware (foldl reduce_chain nxt (rev (map convert_to_middleware ms)))
       (convert_to_middleware m) ctx None"
  by (simp add: compose_middleware_def composed_Cons)

lemma call_next_chain_Cons:
  "call_next (foldl reduce_chain nxt (rev (m # ms))) ctx =
     chained_middleware (foldl reduce_chain nxt (rev ms)) m ctx None"
  by (simp add: reduce_chain_def call_next_def)

lemma next_truthy_chain_Cons [simp]: "next_truthy (foldl reduce_chain nxt (rev (m # ms)))"
  by (simp add: reduce_chain_def next_truthy_def)

lemma convert_forwarder [simp]: "convert_to_middleware (forwarder f) = forwarder f"
  by (simp add: convert_to_middleware_def forwarder_def)

lemma call2_forwarder:
  "call2 (forwarder f) ctx K s =
     (case f ctx s of (c1, s1) \<Rightarrow> (if next_truthy K then call_next K c1 s1 else (Inr c1, s1)))"
  by (simp add: forwarder_def)

lemmas run_defs =
  compose_middleware_def composed_def reduce_chain_def chained_middleware_def
  convert_to_middleware_def is_handler_def call1_def call2_def call_next_def next_truthy_def
  binds_def is_positional_def middleware_parameters_def middleware_of_def handler_of_def
  forwarder_def await_def returns_def raises_def

text \<open>
  A run of forwarding middleware at the head of a chain: each does its work on what the
  one before it produced, the last hands the context to the rest of the chain, and what
  the rest returns or raises comes back through all of them, provided a returned value
  is true (a false one makes each step fall back on its own input).
\<close>

lemma chain_forwarders:
  assumes "fs \<noteq> []"
    and "run_pre fs ctx s = (c', s')"
    and "R = (if next_truthy (foldl reduce_chain nxt (rev rest))
              then call_next (foldl reduce_chain nxt (rev rest)) c' s' else (Inr c', s'))"
    and "\<And>v t. R = (Inr v, t) \<Longrightarrow> truthy v"
  shows "call_next (foldl reduce_chain nxt (rev (map forwarder fs @ rest))) ctx s = R"
  using assms
proof (induction fs arbitrary: ctx s)
  case Nil
  then show ?case by simp
next
  case (Cons f fs)
  obtain c1 s1 where f: "f ctx s = (c1, s1)" by (cases "f ctx s")
  with Cons.prems have run: "run_pre fs c1 s1 = (c', s')" by simp
  let ?K = "foldl reduce_chain nxt (rev (map forwarder fs @ rest))"
  have out: "call2 (forwarder f) ctx ?K s = R"
  proof (cases "fs = []")
    case True
    with run have "c1 = c'" "s1 = s'" by simp_all
    with True f Cons.prems(3) show ?thesis
      by (simp add: call2_forwarder)
  next
    case False
    have "call_next ?K c1 s1 = R"
      using Cons.IH [OF False run Cons.prems(3)] Cons.prems(4) by blast
    moreover have "next_truthy ?K"
      using False by (cases fs) (simp_all add: reduce_chain_def next_truthy_def)
    ultimately show ?thesis using f
      by (simp add: call2_forwarder)
  qed
  have "call_next (foldl reduce_chain nxt (rev (map forwarder (f # fs) @ rest))) ctx s
      = chained_middleware ?K (forwarder f) ctx None s"
    by (simp add: reduce_chain_def call_next_def)
  also have "\<dots> = R"
    using out Cons.prems(4) by (cases R) (auto simp: chained_None split: sum.splits)
  finally show ?case .
qed

text \<open>
  The same run followed by any element of the chain: the element is called on the
  context the run produced, with the rest of the chain for its next, and its outcome comes
  back through the run, a false value replaced by the context the element was given.
\<close>

lemma chain_reaches:
  assumes run: "run_pre fs ctx s = (c', s')"
    and out: "call2 cm c' (foldl reduce_chain nxt (rev rest)) s' = (out, t)"
    and R: "R = (case out of Inl e \<Rightarrow> (Inl e, t)
                 | Inr v \<Rightarrow> (Inr (if truthy v then v else c'), t))"
    and tr: "fs = [] \<or> (\<forall>v u. R = (Inr v, u) \<longrightarrow> truthy v)"
  shows "call_next (foldl reduce_chain nxt (rev (map forwarder fs @ cm # rest))) ctx s = R"
proof -
  have step: "call_next (foldl reduce_chain nxt (rev (cm # rest))) c' s' = R"
    using out R by (simp only: call_next_chain_Cons chained_None) (simp split: sum.splits)
  show ?thesis
  proof (cases "fs = []")
    case True
    with run step show ?thesis by simp
  next
    case False
    with tr have tr': "\<And>v u. R = (Inr v, u) \<Longrightarrow> truthy v" by blast
    show ?thesis
    proof (rule chain_forwarders [OF False run _ tr'])
      show "R = (if next_truthy (foldl reduce_chain nxt (rev (cm # rest)))
              then call_next (foldl reduce_chain nxt (rev (cm # rest))) c' s' else (Inr c', s'))"
        using step by (simp only: next_truthy_chain_Cons if_True)
    qed
  qed
qed

lemma compose_forwarders_then:
  "compose_middleware (map forwarder fs @ m # later) ctx nxt =
     call_next (foldl reduce_chain nxt
       (rev (map forwarder fs @ convert_to_middleware m # map convert_to_middleware later))) ctx"
  by (simp add: compose_middleware_def composed_def comp_def)

section \<open>Order of execution\<close>

text \<open>
  Claim C1, as the code has it. The chain runs in the order of declaration, not last
  declared first: for every non-empty list of forwarding middleware, invoking the
  composed chain with no trailing next applies the work of the first to the original
  context, the work of each other one to the context its predecessor produced, and
  returns the last context (when it is true), with the state the work left in that
  order. A middleware runs only when the one declared before it calls its next.
\<close>

theorem declaration_order:
  assumes "fs \<noteq> []" and "run_pre fs ctx s = (c', s')" and "truthy c'"
  shows "compose_middleware (map forwarder fs) ctx None s = (Inr c', s')"
proof -
  have "call_next (foldl reduce_chain None (rev (map forwarder fs @ []))) ctx s = (Inr c', s')"
    by (rule chain_forwarders [OF assms(1,2)]) (use assms(3) in \<open>simp_all add: next_truthy_def\<close>)
  then show ?thesis
    by (simp add: compose_middleware_def composed_def comp_def)
qed

theorem declaration_order_witness:
  "[\<lambda>c l. (c, l @ [''A'']), \<lambda>c l. (c, l @ [''B'']), \<lambda>c l. (c, l @ [''C''])] \<noteq> []
   \<and> run_pre [\<lambda>c l. (c, l @ [''A'']), \<lambda>c l. (c, l @ [''B'']), \<lambda>c l. (c, l @ [''C''])] (PyObj ()) []
       = (PyObj (), [''A'', ''B'', ''C''])
   \<and> truthy (PyObj ())
   \<and> compose_middleware
        (map forwarder [\<lambda>c l. (c, l @ [''A'']), \<lambda>c l. (c, l @ [''B'']), \<lambda>c l. (c, l @ [''C''])])
        (PyObj ()) None [] = (Inr (PyObj ()), [''A'', ''B'', ''C''])"
proof -
  let ?fs = "[\<lambda>c l. (c, l @ [''A'']), \<lambda>c l. (c, l @ [''B'']), \<lambda>c l. (c, l @ [''C''])]
             :: (unit pyval \<Rightarrow> string list \<Rightarrow> unit pyval \<times> string list) list"
  have h1: "?fs \<noteq> []" by simp
  have h2: "run_pre ?fs (PyObj ()) [] = (PyObj (), [''A'', ''B'', ''C''])" by simp
  have h3: "truthy (PyObj ())" by simp
  from declaration_order [OF h1 h2 h3] h1 h2 h3 show ?thesis by simp
qed

text \<open>
  The order property of the specification on two logging middleware: composing \<open>[A, B]\<close>
  leaves the log \<open>[A, B]\<close>, so \<open>A\<close> has worked before \<open>B\<close>.
\<close>

theorem order_counterexample:
  "compose_middleware [log_mw ''A'', log_mw ''B''] (PyObj ()) None [] = (Inr (PyObj ()), [''A'', ''B''])
   \<and> snd (compose_middleware [log_mw ''A'', log_mw ''B''] (PyObj ()) None []) \<noteq> [''B'', ''A'']"
  by (simp add: run_defs log_mw_def)

text \<open>
  Claim C2, as the code has it. From a counter of 0, the chain of \<open>inc1\<close> and \<open>inc2\<close>
  yields a counter of 3 when the last call of next has something to call (a trailing next
  that returns its context, or middleware that call their next only when there is one),
  and \<open>inc1\<close> increments first: it sees 0 and \<open>inc2\<close> sees 1. With no trailing next and an
  unconditional call, \<open>inc2\<close> calls \<^verbatim>\<open>None\<close> and the invocation raises \<^verbatim>\<open>TypeError\<close> after both
  increments.
\<close>

theorem counter_scenario:
  "compose_middleware [inc ''inc1'' 1, inc ''inc2'' 2] (PyObj \<lparr>counter = 0\<rparr>)
       (Some (Continuation True returns)) []
     = (Inr (PyObj \<lparr>counter = 3\<rparr>), [(''inc1'', 0), (''inc2'', 1)])
   \<and> compose_middleware [inc_guarded ''inc1'' 1, inc_guarded ''inc2'' 2] (PyObj \<lparr>counter = 0\<rparr>) None []
     = (Inr (PyObj \<lparr>counter = 3\<rparr>), [(''inc1'', 0), (''inc2'', 1)])
   \<and> compose_middleware [inc ''inc1'' 1, inc ''inc2'' 2] (PyObj \<lparr>counter = 0\<rparr>) None []
     = (Inl TypeError, [(''inc1'', 0), (''inc2'', 1)])"
  by (simp add: run_defs inc_def inc_guarded_def add_counter_def)

text \<open>
  The scenario as the specification states it, with no trailing next: the record of who
  saw which counter is \<open>inc1\<close> at 0 then \<open>inc2\<close> at 1 in both readings of "calls next", and
  the unconditional call raises instead of yielding a context.
\<close>

theorem counter_counterexample:
  "compose_middleware [inc ''inc1'' 1, inc ''inc2'' 2] (PyObj \<lparr>counter = 0\<rparr>) None []
     = (Inl TypeError, [(''inc1'', 0), (''inc2'', 1)])
   \<and> compose_middleware [inc_guarded ''inc1'' 1, inc_guarded ''inc2'' 2] (PyObj \<lparr>counter = 0\<rparr>) None []
     = (Inr (PyObj \<lparr>counter = 3\<rparr>), [(''inc1'', 0), (''inc2'', 1)])"
  by (simp add: run_defs inc_def inc_guarded_def add_counter_def)

section \<open>Short circuit and failure\<close>

text \<open>
  Claim C3, as the code has it. The middleware declared before the one in question are
  forwarding ones; \<open>c'\<close> is the context they hand to it and \<open>s'\<close> the state they leave. A
  callable that the adapter keeps as a middleware (it does not have exactly one parameter
  without a default) and that returns a false value whatever its next is (it does not
  call it) ends the chain there: the composed invocation returns \<open>c'\<close>, the very context
  that callable was given, with the state as the callable left it (what it changed in
  place stays changed), whatever the middleware declared after it and the trailing next
  are: none of them is invoked. The same holds for a callable with exactly one parameter
  without a default (a handler, or a middleware declared \<^verbatim>\<open>(ctx, nxt=None)\<close>), which the
  adapter wraps, when it is the last of the chain and the trailing next is absent or
  false. The context \<open>c'\<close> must be true unless the callable is the first of the chain.
\<close>

theorem short_circuit:
  assumes "run_pre fs (ctx :: 'c pyval) (s :: 's) = (c', s')"
    and "if is_handler m
         then call1 m c' s' = (Inr v, t) \<and> later = [] \<and> \<not> next_truthy nxt
         else (\<forall>k. call2 m c' k s' = (Inr v, t))"
    and "\<not> truthy v"
    and "fs = [] \<or> truthy c'"
  shows "compose_middleware (map forwarder fs @ m # later) ctx nxt s = (Inr c', t)"
proof -
  let ?rest = "map convert_to_middleware later"
  have out: "call2 (convert_to_middleware m) c' (foldl reduce_chain nxt (rev ?rest)) s' = (Inr v, t)"
  proof (cases "is_handler m")
    case True
    with assms(2) show ?thesis
      by (simp add: call2_convert_handler await_def returns_def)
  next
    case False
    with assms(2) show ?thesis by (simp add: convert_not_handler)
  qed
  have "call_next (foldl reduce_chain nxt
          (rev (map forwarder fs @ convert_to_middleware m # ?rest))) ctx s = (Inr c', t)"
    by (rule chain_reaches [OF assms(1) out]) (use assms(3,4) in auto)
  then show ?thesis by (simp only: compose_forwarders_then)
qed

theorem short_circuit_witness:
  "run_pre [add_counter ''inc1'' 1] (PyObj \<lparr>counter = 0\<rparr>) [] = (PyObj \<lparr>counter = 1\<rparr>, [(''inc1'', 0)])
   \<and> \<not> is_handler (returning_none :: (counter_ctx, (string \<times> int) list) callable)
   \<and> (\<forall>k. call2 returning_none (PyObj \<lparr>counter = 1\<rparr>) k [(''inc1'', 0 :: int)]
            = (Inr (PyNone :: counter_ctx pyval), [(''inc1'', 0)]))
   \<and> \<not> truthy (PyNone :: counter_ctx pyval)
   \<and> truthy (PyObj \<lparr>counter = 1\<rparr>)
   \<and> compose_middleware (map forwarder [add_counter ''inc1'' 1] @ returning_none # [inc ''inc2'' 2])
        (PyObj \<lparr>counter = 0\<rparr>) None [] = (Inr (PyObj \<lparr>counter = 1\<rparr>), [(''inc1'', 0)])
   \<and> is_handler (handler_none :: (counter_ctx, (string \<times> int) list) callable)
   \<and> call1 handler_none (PyObj \<lparr>counter = 1\<rparr>) [(''inc1'', 0 :: int)]
        = (Inr (PyNone :: counter_ctx pyval), [(''inc1'', 0)])
   \<and> \<not> next_truthy (None :: (counter_ctx, (string \<times> int) list) continuation option)
   \<and> compose_middleware (map forwarder [add_counter ''inc1'' 1] @ handler_none # [])
        (PyObj \<lparr>counter = 0\<rparr>) None [] = (Inr (PyObj \<lparr>counter = 1\<rparr>), [(''inc1'', 0)])"
proof -
  have h1: "run_pre [add_counter ''inc1'' 1] (PyObj \<lparr>counter = 0\<rparr>) []
              = (PyObj \<lparr>counter = 1\<rparr>, [(''inc1'', 0)])"
    by (simp add: add_counter_def)
  have n: "\<not> is_handler (returning_none :: (counter_ctx, (string \<times> int) list) callable)"
    by (simp add: returning_none_def)
  have c: "\<forall>k. call2 returning_none (PyObj \<lparr>counter = 1\<rparr>) k [(''inc1'', 0 :: int)]
            = (Inr (PyNone :: counter_ctx pyval), [(''inc1'', 0)])"
    by (simp add: returning_none_def returns_def)
  have h2: "if is_handler (returning_none :: (counter_ctx, (string \<times> int) list) callable)
        then call1 returning_none (PyObj \<lparr>counter = 1\<rparr>) [(''inc1'', 0 :: int)]
               = (Inr (PyNone :: counter_ctx pyval), [(''inc1'', 0)])
             \<and> [inc ''inc2'' 2] = [] \<and> \<not> next_truthy None
        else (\<forall>k. call2 returning_none (PyObj \<lparr>counter = 1\<rparr>) k [(''inc1'', 0 :: int)]
               = (Inr (PyNone :: counter_ctx pyval), [(''inc1'', 0)]))"
    using n c by simp
  have hn: "is_handler (handler_none :: (counter_ctx, (string \<times> int) list) callable)"
    by (simp add: handler_none_def handler_of_def is_handler_def)
  have hc: "call1 handler_none (PyObj \<lparr>counter = 1\<rparr>) [(''inc1'', 0 :: int)]
        = (Inr (PyNone :: counter_ctx pyval), [(''inc1'', 0)])"
    by (simp add: handler_none_def handler_of_def call1_def binds_def is_positional_def returns_def)
  have nt: "\<not> next_truthy (None :: (counter_ctx, (string \<times> int) list) continuation option)"
    by (simp add: next_truthy_def)
  have h2': "if is_handler (handler_none :: (counter_ctx, (string \<times> int) list) callable)
        then call1 handler_none (PyObj \<lparr>counter = 1\<rparr>) [(''inc1'', 0 :: int)]
               = (Inr (PyNone :: counter_ctx pyval), [(''inc1'', 0)])
             \<and> ([] :: (counter_ctx, (string \<times> int) list) callable list) = []
             \<and> \<not> next_truthy (None :: (counter_ctx, (string \<times> int) list) continuation option)
        else (\<forall>k. call2 handler_none (PyObj \<lparr>counter = 1\<rparr>) k [(''inc1'', 0 :: int)]
               = (Inr (PyNone :: counter_ctx pyval), [(''inc1'', 0)]))"
    using hn hc nt by simp
  have h3: "\<not> truthy (PyNone :: counter_ctx pyval)" by simp
  have h4: "[add_counter ''inc1'' 1] = [] \<or> truthy (PyObj \<lparr>counter = 1\<rparr>)" by simp
  from short_circuit [OF h1 h2 h3 h4] short_circuit [OF h1 h2' h3 h4] h1 n c hn hc nt
  show ?thesis by simp
qed

text \<open>
  A middleware that works on what its next returned stands before one that returns
  \<^verbatim>\<open>None\<close>: the second received the counter 0, the composed invocation returns the
  counter 10.
\<close>

theorem short_circuit_counterexample:
  "compose_middleware [post_inc 10, observe_none] (PyObj \<lparr>counter = 0\<rparr>) None []
     = (Inr (PyObj \<lparr>counter = 10\<rparr>), [PyObj \<lparr>counter = 0\<rparr>])"
  by (simp add: run_defs post_inc_def observe_none_def)

text \<open>
  The theorem leaves out a callable of exactly one parameter without a default that is
  not the last of the chain. Such a callable has no say on its next: the adapter calls
  the next for it with whatever it returned, so after one that returns \<^verbatim>\<open>None\<close> the
  middleware declared after it is invoked, with \<^verbatim>\<open>None\<close> for a context. This is so for a
  handler and for a middleware declared \<^verbatim>\<open>(ctx, nxt=None)\<close> alike.
\<close>

lemma handler_none_then_next:
  "compose_middleware [handler_none, observe_none] (PyObj ()) None []
     = (Inr (PyObj ()), [PyNone])
   \<and> compose_middleware [protocol_none, observe_none] (PyObj ()) None []
     = (Inr (PyObj ()), [PyNone])"
  by (simp add: run_defs handler_none_def protocol_none_def observe_none_def)

text \<open>
  Claim C5, as the code has it. The middleware declared before the failing element are
  forwarding ones; \<open>c'\<close> is the context they hand to it and \<open>s'\<close> the state they leave. When
  the element raises without having called its next (a handler, or any callable of
  exactly one parameter without a default, whose call raises; or a middleware that
  raises whatever its next is), the composed invocation raises the same exception with
  the state as the element left it, whatever the middleware declared after it and the
  trailing next are: none of them runs. And no step of the chain catches: an exception
  that comes out of the call of its middleware comes out of the step unchanged.
\<close>

theorem failure_propagation:
  assumes "run_pre fs (ctx :: 'c pyval) (s :: 's) = (c', s')"
    and "if is_handler m then call1 m c' s' = (Inl e, t)
         else (\<forall>k. call2 m c' k s' = (Inl e, t))"
  shows "compose_middleware (map forwarder fs @ m # later) ctx nxt s = (Inl e, t)
       \<and> (call2 (cur :: ('c, 's) callable) x acc u = (Inl e', u') \<longrightarrow>
             chained_middleware acc cur x None u = (Inl e', u'))"
proof -
  let ?rest = "map convert_to_middleware later"
  have out: "call2 (convert_to_middleware m) c' (foldl reduce_chain nxt (rev ?rest)) s' = (Inl e, t)"
  proof (cases "is_handler m")
    case True
    with assms(2) show ?thesis
      by (simp add: call2_convert_handler await_def)
  next
    case False
    with assms(2) show ?thesis by (simp add: convert_not_handler)
  qed
  have "call_next (foldl reduce_chain nxt
          (rev (map forwarder fs @ convert_to_middleware m # ?rest))) ctx s = (Inl e, t)"
    by (rule chain_reaches [OF assms(1) out]) auto
  then show ?thesis by (simp add: compose_forwarders_then chained_None)
qed

theorem failure_propagation_witness:
  "run_pre [\<lambda>c l. (c, l @ [''A''])] (PyObj ()) [] = (PyObj (), [''A''])
   \<and> \<not> is_handler (raising (Raised ''boom'') :: (unit, string list) callable)
   \<and> (\<forall>k. call2 (raising (Raised ''boom'')) (PyObj ()) k [''A''] = (Inl (Raised ''boom''), [''A'']))
   \<and> compose_middleware (map forwarder [\<lambda>c l. (c, l @ [''A''])] @ raising (Raised ''boom'') # [log_mw ''C''])
        (PyObj ()) None [] = (Inl (Raised ''boom''), [''A''])
   \<and> is_handler (handler_raising (Raised ''boom'') :: (unit, string list) callable)
   \<and> call1 (handler_raising (Raised ''boom'')) (PyObj ()) [''A'']
        = (Inl (Raised ''boom''), [''A''])
   \<and> compose_middleware (map forwarder [\<lambda>c l. (c, l @ [''A''])]
          @ handler_raising (Raised ''boom'') # [log_mw ''C''])
        (PyObj ()) None [] = (Inl (Raised ''boom''), [''A''])
   \<and> call2 (raising (Raised ''boom'')) (PyObj ()) None [''A''] = (Inl (Raised ''boom''), [''A''])
   \<and> chained_middleware None (raising (Raised ''boom'')) (PyObj ()) None [''A'']
        = (Inl (Raised ''boom''), [''A''])"
proof -
  let ?h = "handler_raising (Raised ''boom'') :: (unit, string list) callable"
  have h1: "run_pre [\<lambda>c l. (c, l @ [''A''])] (PyObj ()) [] = (PyObj (), [''A''])" by simp
  have n: "\<not> is_handler (raising (Raised ''boom'') :: (unit, string list) callable)"
    by (simp add: raising_def)
  have c: "\<forall>k. call2 (raising (Raised ''boom'')) (PyObj ()) k [''A''] = (Inl (Raised ''boom''), [''A''])"
    by (simp add: raising_def raises_def)
  have h2: "if is_handler (raising (Raised ''boom'') :: (unit, string list) callable)
      then call1 (raising (Raised ''boom'')) (PyObj ()) [''A''] = (Inl (Raised ''boom''), [''A''])
      else (\<forall>k. call2 (raising (Raised ''boom'')) (PyObj ()) k [''A''] = (Inl (Raised ''boom''), [''A'']))"
    using n c by simp
  have hn: "is_handler ?h" by (simp add: handler_raising_def handler_of_def is_handler_def)
  have hc: "call1 ?h (PyObj ()) [''A''] = (Inl (Raised ''boom''), [''A''])"
    by (simp add: handler_raising_def handler_of_def call1_def binds_def is_positional_def
        raises_def)
  have h2': "if is_handler ?h then call1 ?h (PyObj ()) [''A''] = (Inl (Raised ''boom''), [''A''])
      else (\<forall>k. call2 ?h (PyObj ()) k [''A''] = (Inl (Raised ''boom''), [''A'']))"
    using hn hc by simp
  from c have h4: "call2 (raising (Raised ''boom'')) (PyObj ()) None [''A''] = (Inl (Raised ''boom''), [''A''])"
    by blast
  from failure_propagation [OF h1 h2, of "[log_mw ''C'']" None "raising (Raised ''boom'')"
      "PyObj ()" None "[''A'']" "Raised ''boom''" "[''A'']"]
    failure_propagation [OF h1 h2', of "[log_mw ''C'']" None "raising (Raised ''boom'')"
      "PyObj ()" None "[''A'']" "Raised ''boom''" "[''A'']"] h1 n c hn hc h4
  show ?thesis by simp
qed

text \<open>
  A middleware that catches what its next raises returns normally although the one after
  it raised; and a middleware that raises after its next has returned fails although the
  one declared after it has run.
\<close>

theorem failure_counterexample:
  "compose_middleware [catching, raising (Raised ''boom'')] (PyObj ()) None () = (Inr (PyObj ()), ())
   \<and> compose_middleware [raise_after_next (Raised ''boom''), log_mw ''B''] (PyObj ()) None []
       = (Inl (Raised ''boom''), [''B''])"
  by (simp add: run_defs catching_def raising_def raise_after_next_def log_mw_def)

section \<open>The adapter\<close>

text \<open>
  On signatures with positional parameters only, \<^verbatim>\<open>_is_handler\<close> is the classification of
  the specification, and the adapter wraps a handler as the specification says: the
  next is called with the handler's result when it is true (\<^verbatim>\<open>if nxt\<close>), and the result is
  returned when the next is false or absent.
\<close>

lemma is_handler_positional:
  "list_all is_positional (parameters f) \<Longrightarrow> is_handler f = spec_is_handler f"
proof -
  assume "list_all is_positional (parameters f)"
  then have "filter (\<lambda>p. is_positional p \<and> \<not> has_default p) (parameters f)
           = filter (\<lambda>p. \<not> has_default p) (parameters f)"
    by (intro filter_cong) (auto simp: list_all_iff)
  then show ?thesis by (simp add: is_handler_def spec_is_handler_def)
qed

lemma adapter_wraps:
  "is_handler h \<Longrightarrow>
     call2 (convert_to_middleware h) ctx (Some (Continuation True k)) = await (call1 h ctx) k
   \<and> call2 (convert_to_middleware h) ctx (Some (Continuation False k)) s = call1 h ctx s
   \<and> call2 (convert_to_middleware h) ctx None s = call1 h ctx s"
  by (auto simp: call2_convert_handler next_truthy_def call_next_def await_def returns_def
      split: prod.splits sum.splits)

text \<open>
  Claim C4 at a handler that also accepts keyword arguments,
  \<^verbatim>\<open>async def h(ctx, **kwargs)\<close>. It has exactly one required positional parameter and
  \<^verbatim>\<open>h(ctx)\<close> returns, but \<^verbatim>\<open>_is_handler\<close> counts \<^verbatim>\<open>kwargs\<close> too, whose default is empty: the
  callable is kept as a middleware, and the chain calls it with two positional arguments,
  which raises \<^verbatim>\<open>TypeError\<close>.
\<close>

theorem kwargs_handler_misclassified:
  "spec_is_handler (handler_kwargs :: (unit, unit) callable)
   \<and> \<not> is_handler (handler_kwargs :: (unit, unit) callable)
   \<and> call1 handler_kwargs (PyObj ()) () = (Inr (PyObj ()), ())
   \<and> compose_middleware [handler_kwargs] (PyObj ()) None () = (Inl TypeError, ())"
  by (simp add: run_defs spec_is_handler_def handler_kwargs_def)

text \<open>
  Claim C6, as the code has it. For a callable classified as a handler, the chain made of
  it alone, invoked with no trailing next, raises what \<^verbatim>\<open>h(ctx)\<close> raises and returns what
  \<^verbatim>\<open>h(ctx)\<close> returns when that value is true; when the handler returns \<^verbatim>\<open>None\<close> or another
  false value, the chain returns the context it was invoked with.
\<close>

theorem single_handler:
  assumes "is_handler h"
  shows "compose_middleware [h] ctx None s =
     (case call1 h ctx s of
        (Inl e, t) \<Rightarrow> (Inl e, t)
      | (Inr v, t) \<Rightarrow> (Inr (if truthy v then v else ctx), t))"
  using assms
  by (simp add: compose_Cons chained_None call2_convert_handler next_truthy_def await_def
      returns_def split: prod.splits sum.splits)

theorem single_handler_witness:
  "is_handler (handler_of (\<lambda>ctx. returns (PyInt 7)) :: (unit, unit) callable)
   \<and> compose_middleware [handler_of (\<lambda>ctx. returns (PyInt 7))] (PyObj ()) None () = (Inr (PyInt 7), ())
   \<and> is_handler (handler_none :: (unit, unit) callable)
   \<and> compose_middleware [handler_none] (PyObj ()) None () = (Inr (PyObj ()), ())"
proof -
  have h1: "is_handler (handler_of (\<lambda>ctx. returns (PyInt 7)) :: (unit, unit) callable)"
    by (simp add: is_handler_def handler_of_def)
  have h2: "is_handler (handler_none :: (unit, unit) callable)"
    by (simp add: is_handler_def handler_of_def handler_none_def)
  from single_handler [OF h1, of "PyObj ()" "()"] single_handler [OF h2, of "PyObj ()" "()"] h1 h2
  show ?thesis
    by (simp add: call1_def handler_of_def handler_none_def binds_def is_positional_def returns_def)
qed

text \<open>A handler that returns \<^verbatim>\<open>None\<close>: the chain returns the context, not \<^verbatim>\<open>None\<close>.\<close>

theorem single_handler_counterexample:
  "call1 handler_none (PyObj ()) () = (Inr PyNone, ())
   \<and> compose_middleware [handler_none] (PyObj ()) None () = (Inr (PyObj ()), ())"
  by (simp add: run_defs handler_none_def)

text \<open>
  Claim C7. A callable that returns its context unchanged when called without a next
  (as \<^verbatim>\<open>m(ctx)\<close> when the adapter takes it for a handler, as \<^verbatim>\<open>m(ctx, None)\<close> otherwise):
  the chain made of it alone, invoked with no trailing next, returns that context.
\<close>

theorem single_identity:
  assumes "(if is_handler m then call1 m ctx s else call2 m ctx None s) = (Inr ctx, t)"
  shows "compose_middleware [m] ctx None s = (Inr ctx, t)"
proof (cases "is_handler m")
  case True
  with assms show ?thesis
    by (simp add: compose_Cons chained_None call2_convert_handler next_truthy_def await_def
        returns_def)
next
  case False
  with assms show ?thesis
    by (simp add: compose_Cons chained_None convert_not_handler)
qed

theorem single_identity_witness:
  "(if is_handler (identity_default :: (unit, unit) callable)
    then call1 identity_default (PyObj ()) () else call2 identity_default (PyObj ()) None ())
     = (Inr (PyObj ()), ())
   \<and> compose_middleware [identity_default] (PyObj ()) None () = (Inr (PyObj ()), ())"
proof -
  have h: "(if is_handler (identity_default :: (unit, unit) callable)
    then call1 identity_default (PyObj ()) () else call2 identity_default (PyObj ()) None ())
     = (Inr (PyObj ()), ())"
    by (simp add: is_handler_def identity_default_def call1_def binds_def is_positional_def returns_def next_truthy_def)
  from single_identity [OF h] h show ?thesis by simp
qed

text \<open>
  Claim C8, as the code has it. Nothing checks the arity when the chain is composed: a
  callable that does not have exactly one parameter without a default is kept unchanged
  as a middleware, and when its signature does not accept two positional arguments the
  invocation of the chain raises \<^verbatim>\<open>TypeError\<close>, at call time, with the state untouched.
\<close>

theorem no_arity_check:
  assumes "length (filter (\<lambda>p. \<not> has_default p) (parameters f)) \<noteq> 1"
  shows "convert_to_middleware f = f
       \<and> (\<not> binds (parameters f) 2 \<longrightarrow> compose_middleware (f # ms) ctx nxt s = (Inl TypeError, s))"
  using assms
  by (simp add: compose_Cons chained_None convert_to_middleware_def is_handler_def call2_def raises_def)

theorem no_arity_check_witness:
  "length (filter (\<lambda>p. \<not> has_default p) (parameters (three_parameters :: (unit, unit) callable))) \<noteq> 1
   \<and> \<not> binds (parameters (three_parameters :: (unit, unit) callable)) 2
   \<and> convert_to_middleware (three_parameters :: (unit, unit) callable) = three_parameters
   \<and> compose_middleware [three_parameters] (PyObj ()) None () = (Inl TypeError, ())"
proof -
  have h1: "length (filter (\<lambda>p. \<not> has_default p) (parameters (three_parameters :: (unit, unit) callable))) \<noteq> 1"
    by (simp add: three_parameters_def)
  have h2: "\<not> binds (parameters (three_parameters :: (unit, unit) callable)) 2"
    by (simp add: three_parameters_def binds_def is_positional_def)
  from no_arity_check [OF h1, of "[]" "PyObj ()" None "()"] h1 h2 show ?thesis by simp
qed

text \<open>
  A callable without parameters is not rejected: the adapter returns it unchanged and
  the error comes when the chain is invoked.
\<close>

theorem arity_counterexample:
  "convert_to_middleware (no_parameters :: (unit, unit) callable) = no_parameters
   \<and> compose_middleware [no_parameters] (PyObj ()) None () = (Inl TypeError, ())"
  by (simp add: run_defs no_parameters_def)

text \<open>
  Claim C9. The chain composed of no middleware is the trailing next itself: invoked
  with no trailing next it calls \<^verbatim>\<open>None\<close> and raises \<^verbatim>\<open>TypeError\<close>, invoked with a trailing
  next it does what the trailing next does on the context.
\<close>

theorem compose_empty:
  "compose_middleware [] ctx None s = (Inl TypeError, s)
   \<and> compose_middleware [] ctx (Some k) s = resume k ctx s"
  by (simp add: compose_middleware_def composed_def call_next_def raises_def)

section \<open>The body of an HTTP response\<close>

text \<open>
  Claim C10. Whatever the response holds, assigning \<^verbatim>\<open>bytes\<close> to \<^verbatim>\<open>body\<close> succeeds and
  stores them unchanged; assigning a \<^verbatim>\<open>str\<close> stores its UTF-8 encoding and succeeds
  whenever the encoding does; assigning any other value stores the UTF-8 encoding of its
  JSON text and sets the header \<^verbatim>\<open>Content-Type\<close> to \<^verbatim>\<open>["application/json"]\<close>, and succeeds
  whenever \<^verbatim>\<open>json.dumps\<close> and the encoding do. When one of the two raises, the assignment
  raises the same exception and the response is as it was. So after every assignment
  that completes the body holds bytes, a body that held bytes holds bytes after any
  assignment, completed or not, and the status never changes. A new response holds bytes
  when it is built with bytes or with a false value for its body.
\<close>

theorem body_always_bytes:
  fixes r :: "'c HttpResponse"
  shows "body_setter dumps encode r (PyBytes b) = (Inr (), r\<lparr>body := PyBytes b\<rparr>)
       \<and> (encode t = Inr tb \<longrightarrow>
            body_setter dumps encode r (PyStr t) = (Inr (), r\<lparr>body := PyBytes tb\<rparr>))
       \<and> (encode t = Inl e \<longrightarrow> body_setter dumps encode r (PyStr t) = (Inl e, r))
       \<and> (\<not> is_str v \<and> \<not> is_bytes v \<and> dumps v = Inr js \<and> encode js = Inr jb \<longrightarrow>
            body_setter dumps encode r v =
              (Inr (), r\<lparr>body := PyBytes jb,
                         headers := (headers r)(''Content-Type'' \<mapsto>
                                      HList [''application/json''])\<rparr>))
       \<and> (\<not> is_str v \<and> \<not> is_bytes v \<and> (dumps v = Inl e \<or> dumps v = Inr js \<and> encode js = Inl e) \<longrightarrow>
            body_setter dumps encode r v = (Inl e, r))
       \<and> (body_setter dumps encode r w = (Inr (), r') \<longrightarrow> is_bytes (body r'))
       \<and> (is_bytes (body r) \<longrightarrow> is_bytes (body (snd (body_setter dumps encode r w))))
       \<and> (body_setter dumps encode r w = (out, r') \<longrightarrow> status r' = status r)
       \<and> (is_bytes ib \<or> \<not> truthy ib \<longrightarrow>
            is_bytes (body (HttpResponse_init st hs ib :: 'c HttpResponse)))"
proof -
  have 1: "body_setter dumps encode r (PyBytes b) = (Inr (), r\<lparr>body := PyBytes b\<rparr>)"
    by (simp add: body_setter_def)
  have 2: "encode t = Inr tb \<longrightarrow>
            body_setter dumps encode r (PyStr t) = (Inr (), r\<lparr>body := PyBytes tb\<rparr>)"
    by (simp add: body_setter_def)
  have 3: "encode t = Inl e \<longrightarrow> body_setter dumps encode r (PyStr t) = (Inl e, r)"
    by (simp add: body_setter_def)
  have 4: "\<not> is_str v \<and> \<not> is_bytes v \<and> dumps v = Inr js \<and> encode js = Inr jb \<longrightarrow>
            body_setter dumps encode r v =
              (Inr (), r\<lparr>body := PyBytes jb,
                         headers := (headers r)(''Content-Type'' \<mapsto>
                                      HList [''application/json''])\<rparr>)"
    by (cases v) (simp_all add: body_setter_def)
  have 5: "\<not> is_str v \<and> \<not> is_bytes v \<and> (dumps v = Inl e \<or> dumps v = Inr js \<and> encode js = Inl e) \<longrightarrow>
            body_setter dumps encode r v = (Inl e, r)"
    by (cases v) (auto simp: body_setter_def)
  have 6: "body_setter dumps encode r w = (Inr (), r') \<longrightarrow> is_bytes (body r')"
    by (cases w) (auto simp: body_setter_def split: sum.splits)
  have 7: "is_bytes (body r) \<longrightarrow> is_bytes (body (snd (body_setter dumps encode r w)))"
    by (cases w) (auto simp: body_setter_def split: sum.splits)
  have 8: "body_setter dumps encode r w = (out, r') \<longrightarrow> status r' = status r"
    by (cases w) (auto simp: body_setter_def split: sum.splits)
  have 9: "is_bytes ib \<or> \<not> truthy ib \<longrightarrow>
            is_bytes (body (HttpResponse_init st hs ib :: 'c HttpResponse))"
    by (simp add: HttpResponse_init_def)
  from 1 2 3 4 5 6 7 8 9 show ?thesis by blast
qed

theorem body_always_bytes_witness:
  "body_setter json_dumps encode_utf8 (HttpResponse_init 200 None PyNone :: unit HttpResponse)
       (PyBytes [1, 2])
     = (Inr (), \<lparr>status = 200, headers = Map.empty, body = PyBytes [1, 2]\<rparr>)
   \<and> encode_utf8 [CHR ''a'', CHR 0xE9] = Inr [97, 195, 169]
   \<and> body_setter json_dumps encode_utf8 (HttpResponse_init 200 None PyNone :: unit HttpResponse)
       (PyStr [CHR ''a'', CHR 0xE9])
     = (Inr (), \<lparr>status = 200, headers = Map.empty, body = PyBytes [97, 195, 169]\<rparr>)
   \<and> json_dumps (PyInt 7 :: unit pyval) = Inr ''7''
   \<and> encode_utf8 ''7'' = Inr [55]
   \<and> body_setter json_dumps encode_utf8 (HttpResponse_init 200 None PyNone :: unit HttpResponse)
       (PyInt 7)
     = (Inr (), \<lparr>status = 200,
                 headers = [''Content-Type'' \<mapsto> HList [''application/json'']],
                 body = PyBytes [55]\<rparr>)
   \<and> json_dumps (PyObj ()) = Inl TypeError
   \<and> body_setter json_dumps encode_utf8 (HttpResponse_init 200 None PyNone :: unit HttpResponse)
       (PyObj ())
     = (Inl TypeError, \<lparr>status = 200, headers = Map.empty, body = PyBytes []\<rparr>)
   \<and> \<not> truthy (PyNone :: unit pyval)
   \<and> is_bytes (body (HttpResponse_init 200 None PyNone :: unit HttpResponse))"
proof -
  let ?r = "HttpResponse_init 200 None PyNone :: unit HttpResponse"
  have r: "?r = \<lparr>status = 200, headers = Map.empty, body = PyBytes []\<rparr>"
    by (simp add: HttpResponse_init_def)
  have enc: "encode_utf8 [CHR ''a'', CHR 0xE9] = Inr [97, 195, 169]"
    by (simp add: encode_utf8_def utf8_char_def)
  have d7: "json_dumps (PyInt 7 :: unit pyval) = Inr ''7''"
    by (simp add: str_of_int_def decimal.simps [of 7])
  have e7: "encode_utf8 ''7'' = Inr [55]"
    by (simp add: encode_utf8_def utf8_char_def)
  have dO: "json_dumps (PyObj ()) = Inl TypeError" by simp
  note a = body_always_bytes [where dumps = json_dumps and encode = encode_utf8 and r = ?r
      and b = "[1, 2]" and t = "[CHR ''a'', CHR 0xE9]" and tb = "[97, 195, 169]"
      and v = "PyInt 7" and js = "''7''" and jb = "[55]" and w = "PyInt 7"
      and ib = PyNone and st = 200 and hs = None]
  note b = body_always_bytes [where dumps = json_dumps and encode = encode_utf8 and r = ?r
      and v = "PyObj ()" and e = TypeError]
  from a b enc d7 e7 dO show ?thesis
    by (simp add: r)
qed

end
